theory Spec2Isabelle
  imports Main "HOL-Library.Sublist"
begin

section \<open>Data model\<close>

text \<open>
  The records of the REST and push payloads, as the components read them. JavaScript
  strings are modelled as \<open>string\<close>, a field that may be absent (\<open>null\<close> or
  \<open>undefined\<close>) as an \<open>option\<close>, counters as \<open>int\<close>.

  The text that the log page searches (the message and the step of an entry, and the
  search term) is lower-cased by the page, so its characters are modelled one by one,
  over this alphabet: the code points U+0000 to U+00FF (\<open>Latin1 c\<close>, where \<open>c\<close> is the
  code point), the 24 capital Greek letters U+0391 to U+03A9, the 24 small Greek letters
  U+03B1 to U+03C9, and the small final sigma U+03C2. Text with other characters is
  outside the model.
\<close>

datatype greek =
    G_alpha | G_beta | G_gamma | G_delta | G_epsilon | G_zeta | G_eta | G_theta
  | G_iota | G_kappa | G_lambda | G_mu | G_nu | G_xi | G_omicron | G_pi
  | G_rho | G_sigma | G_tau | G_upsilon | G_phi | G_chi | G_psi | G_omega

datatype js_char = Latin1 char | Capital greek | Small greek | Final_sigma

type_synonym js_string = "js_char list"

text \<open>A text of Latin-1 characters, written as a \<open>string\<close>.\<close>

definition latin :: "string \<Rightarrow> js_string" where
  "latin s = map Latin1 s"

record system_status =
  status :: string
  last_check :: "string option"
  total_checks :: int
  slots_found :: int
  successful_bookings :: int
  error_count :: int
  uptime_minutes :: int

record log_entry =
  level :: string
  step :: "js_string option"
  message :: js_string
  timestamp :: string
  details :: "string option"

text \<open>
  A slot. The fields \<open>id\<close> and \<open>status\<close> of the source are named \<open>slot_id\<close> and
  \<open>slot_status\<close> here, since \<open>id\<close> is a constant of HOL and \<open>status\<close> is a field of
  \<open>system_status\<close>. \<open>booking_details\<close> holds the \<open>confirmation_id\<close> when present.
\<close>

record slot =
  slot_id :: string
  slot_status :: string
  visa_type :: "string option"
  visa_category :: "string option"
  location :: "string option"
  appointment_date :: "string option"
  appointment_time :: "string option"
  found_at :: "string option"
  available_slots :: "nat option"
  booking_details :: "string option"

section \<open>REST calls, their outcomes and other effects\<close>

text \<open>
  A request is the method, the path below \<open>${BACKEND_URL}/api\<close> and the JSON body.
  \<open>StartBody n\<close> is \<open>{check_interval_minutes: n}\<close>, \<open>BookBody i c\<close> is
  \<open>{slot_id: i, confirm_booking: c}\<close>.
\<close>

datatype body = NoBody | StartBody int | BookBody string bool

datatype request = GET string | POST string body

text \<open>
  What a handler does besides updating its component state: REST calls issued,
  \<open>alert\<close> and \<open>window.confirm\<close> boxes shown, console output, and the deferred
  scroll of the log container.
\<close>

datatype effect =
    Rest request
  | Alert string
  | ConsoleLog string
  | ConsoleError string
  | ConfirmDialog string
  | ScrollTop

fun rest_calls :: "effect list \<Rightarrow> request list" where
  "rest_calls [] = []"
| "rest_calls (Rest r # es) = r # rest_calls es"
| "rest_calls (e # es) = rest_calls es"

text \<open>
  An axios promise either resolves with a response (a 2xx status and the parsed body) or
  rejects with an error: \<open>error.response\<close> is present when the server answered with a
  non-2xx status and absent on a transport failure, \<open>error.response.data.detail\<close> is
  the server's message when it sent one, \<open>error.message\<close> is always there.
\<close>

record 'a axios_response =
  resp_status :: nat
  resp_data :: 'a

record error_data =
  detail :: "string option"

record error_response =
  eresp_status :: nat
  eresp_data :: "error_data option"

record axios_error =
  err_response :: "error_response option"
  err_message :: string

type_synonym 'a outcome = "axios_error + 'a axios_response"

text \<open>The optional chain \<open>error.response?.data?.detail\<close>.\<close>

definition error_detail :: "axios_error \<Rightarrow> string option" where
  "error_detail e =
     (case err_response e of
        None \<Rightarrow> None
      | Some r \<Rightarrow> (case eresp_data r of None \<Rightarrow> None | Some d \<Rightarrow> detail d))"

text \<open>
  \<open>error.response?.data?.detail || error.message\<close>: the right operand is taken when
  the left one is falsy, that is \<open>undefined\<close> or the empty string.
\<close>

definition detail_or_message :: "axios_error \<Rightarrow> string" where
  "detail_or_message e =
     (case error_detail e of
        None \<Rightarrow> err_message e
      | Some d \<Rightarrow> (if d = [] then err_message e else d))"

section \<open>App.js: the status store\<close>

datatype ws_handle = WS

record app_state =
  systemStatus :: system_status
  websocket :: "ws_handle option"
  isConnected :: bool

text \<open>The \<open>useState\<close> defaults of \<open>App\<close>.\<close>

definition app_init :: app_state where
  "app_init =
     \<lparr> systemStatus =
         \<lparr> status = ''stopped'', last_check = None, total_checks = 0, slots_found = 0,
           successful_bookings = 0, error_count = 0, uptime_minutes = 0 \<rparr>,
       websocket = None,
       isConnected = False \<rparr>"

text \<open>
  A parsed push message \<open>{type, data}\<close>, as a tagged union over \<open>type\<close>: the three
  types the client knows and any other type string.
\<close>

datatype ws_message =
    LogMsg log_entry
  | SlotsFoundMsg
  | SystemStatusMsg system_status
  | OtherMsg string

text \<open>
  \<open>fetchSystemStatus\<close> is an async function with one \<open>await\<close>: the part before the
  await issues the GET, the part after it (\<open>fetchSystemStatus_resume\<close>) runs when the
  promise settles.
\<close>

definition fetchSystemStatus :: "app_state \<Rightarrow> app_state \<times> effect list" where
  "fetchSystemStatus s = (s, [Rest (GET ''/system/status'')])"

definition fetchSystemStatus_resume ::
  "system_status outcome \<Rightarrow> app_state \<Rightarrow> app_state \<times> effect list" where
  "fetchSystemStatus_resume r s =
     (case r of
        Inr response \<Rightarrow> (s\<lparr>systemStatus := resp_data response\<rparr>, [])
      | Inl error \<Rightarrow> (s, [ConsoleError ''Failed to fetch system status:'']))"

fun handleWebSocketMessage :: "ws_message \<Rightarrow> app_state \<Rightarrow> app_state \<times> effect list" where
  "handleWebSocketMessage (LogMsg d) s = (s, [ConsoleLog ''New log:''])"
| "handleWebSocketMessage SlotsFoundMsg s =
     (let (s', es) = fetchSystemStatus s in (s', ConsoleLog ''New slots found:'' # es))"
| "handleWebSocketMessage (SystemStatusMsg d) s = (s\<lparr>systemStatus := d\<rparr>, [])"
| "handleWebSocketMessage (OtherMsg t) s = (s, [ConsoleLog ''Unknown message type:''])"

text \<open>
  The socket callbacks. \<open>onmessage\<close> receives \<open>None\<close> when \<open>JSON.parse\<close> throws on
  the frame.
\<close>

definition onopen :: "app_state \<Rightarrow> app_state \<times> effect list" where
  "onopen s = (s\<lparr>isConnected := True, websocket := Some WS\<rparr>, [ConsoleLog ''WebSocket connected''])"

definition onmessage :: "ws_message option \<Rightarrow> app_state \<Rightarrow> app_state \<times> effect list" where
  "onmessage ev s =
     (case ev of
        None \<Rightarrow> (s, [ConsoleError ''WebSocket message error:''])
      | Some m \<Rightarrow> handleWebSocketMessage m s)"

definition onclose :: "app_state \<Rightarrow> app_state \<times> effect list" where
  "onclose s = (s\<lparr>isConnected := False, websocket := None\<rparr>, [ConsoleLog ''WebSocket disconnected''])"

definition onerror :: "app_state \<Rightarrow> app_state \<times> effect list" where
  "onerror s = (s\<lparr>isConnected := False\<rparr>, [ConsoleError ''WebSocket error:''])"

text \<open>
  The two ways a status reaches the store: \<open>applySnapshot\<close> is the resolved GET of
  \<open>fetchSystemStatus\<close>, \<open>applyPush\<close> is a \<open>system_status\<close> push message.
  \<open>current\<close> reads the store.
\<close>

datatype status_call =
    applySnapshot "system_status axios_response"
  | applyPush system_status

fun payload :: "status_call \<Rightarrow> system_status" where
  "payload (applySnapshot response) = resp_data response"
| "payload (applyPush d) = d"

fun apply_call :: "status_call \<Rightarrow> app_state \<Rightarrow> app_state" where
  "apply_call (applySnapshot response) s = fst (fetchSystemStatus_resume (Inr response) s)"
| "apply_call (applyPush d) s = fst (onmessage (Some (SystemStatusMsg d)) s)"

definition apply_calls :: "status_call list \<Rightarrow> app_state \<Rightarrow> app_state" where
  "apply_calls cs s = foldl (\<lambda>s' c. apply_call c s') s cs"

definition current :: "app_state \<Rightarrow> system_status" where
  "current s = systemStatus s"

text \<open>
  The \<open>onStatusUpdate\<close> prop that \<open>App\<close> hands to its children is
  \<open>fetchSystemStatus\<close>: calling it issues the status GET and changes no state of the
  calling component.
\<close>

definition onStatusUpdate :: "effect list" where
  "onStatusUpdate = snd (fetchSystemStatus app_init)"

section \<open>Strings\<close>










text \<open>The non-ASCII characters of the alert texts, as their UTF-8 bytes.\<close>

definition rocket :: string where
  "rocket = [CHR 0xF0, CHR 0x9F, CHR 0x9A, CHR 0x80]"

definition stop_sign :: string where
  "stop_sign = [CHR 0xF0, CHR 0x9F, CHR 0x9B, CHR 0x91]"

definition check_mark :: string where
  "check_mark = [CHR 0xE2, CHR 0x9C, CHR 0x85]"

definition cross_mark :: string where
  "cross_mark = [CHR 0xE2, CHR 0x9D, CHR 0x8C]"

definition party_popper :: string where
  "party_popper = [CHR 0xF0, CHR 0x9F, CHR 0x8E, CHR 0x89]"

definition bullet :: string where
  "bullet = [CHR 0xE2, CHR 0x80, CHR 0xA2]"

definition newline :: string where
  "newline = [CHR 0x0A]"

section \<open>SystemLogs.js: the log stream\<close>

text \<open>
  The component state. Each component has an \<open>isLoading\<close> of its own; the fields are
  told apart by a letter: \<open>isLoadingL\<close> here, \<open>isLoadingS\<close> in AppointmentSlots,
  \<open>isLoadingC\<close> in SystemControls, \<open>isLoadingD\<close> in Dashboard.
\<close>

record logs_state =
  logs :: "log_entry list"
  isLoadingL :: bool
  selectedLevel :: string
  autoScroll :: bool
  searchTerm :: js_string

definition logs_init :: logs_state where
  "logs_init =
     \<lparr> logs = [], isLoadingL = False, selectedLevel = ''all'', autoScroll = True,
       searchTerm = [] \<rparr>"

text \<open>
  The listener on the socket. \<open>None\<close> is a frame on which \<open>JSON.parse\<close> throws.
  The listener is attached only while the \<open>websocket\<close> prop is not null
  (\<open>deliver\<close>).
\<close>

fun handleMessage :: "ws_message option \<Rightarrow> logs_state \<Rightarrow> logs_state \<times> effect list" where
  "handleMessage None s = (s, [ConsoleError ''WebSocket message error:''])"
| "handleMessage (Some (LogMsg d)) s =
     (s\<lparr>logs := d # logs s\<rparr>, if autoScroll s then [ScrollTop] else [])"
| "handleMessage (Some m) s = (s, [])"

definition deliver ::
  "ws_handle option \<Rightarrow> ws_message option \<Rightarrow> logs_state \<Rightarrow> logs_state \<times> effect list" where
  "deliver ws ev s = (case ws of None \<Rightarrow> (s, []) | Some h \<Rightarrow> handleMessage ev s)"

definition levelParam :: "logs_state \<Rightarrow> string" where
  "levelParam s = (if selectedLevel s \<noteq> ''all'' then ''&level='' @ selectedLevel s else [])"

definition fetchLogs :: "logs_state \<Rightarrow> logs_state \<times> effect list" where
  "fetchLogs s = (s\<lparr>isLoadingL := True\<rparr>, [Rest (GET (''/logs?limit=100'' @ levelParam s))])"

text \<open>The outcome carries \<open>response.data.logs\<close>.\<close>

definition fetchLogs_resume ::
  "log_entry list outcome \<Rightarrow> logs_state \<Rightarrow> logs_state \<times> effect list" where
  "fetchLogs_resume r s =
     (case r of
        Inr response \<Rightarrow> (s\<lparr>logs := resp_data response, isLoadingL := False\<rparr>, [])
      | Inl error \<Rightarrow> (s\<lparr>isLoadingL := False\<rparr>, [ConsoleError ''Failed to fetch logs:'']))"

text \<open>\<open>clearLogs\<close> takes the answer the user gives to \<open>window.confirm\<close>.\<close>

definition clear_question :: string where
  "clear_question = ''Are you sure you want to clear the displayed logs? This will only clear the current view, not the database.''"

definition clearLogs :: "bool \<Rightarrow> logs_state \<Rightarrow> logs_state \<times> effect list" where
  "clearLogs answer s =
     (if answer then (s\<lparr>logs := []\<rparr>, [ConfirmDialog clear_question])
      else (s, [ConfirmDialog clear_question]))"

text \<open>
  The controls of the page. Choosing another level re-runs the effect that depends on
  \<open>selectedLevel\<close>, which calls \<open>fetchLogs\<close>; the Refresh button is disabled while
  \<open>isLoading\<close>.
\<close>

definition setSelectedLevel :: "string \<Rightarrow> logs_state \<Rightarrow> logs_state \<times> effect list" where
  "setSelectedLevel v s = (if v = selectedLevel s then (s, []) else fetchLogs (s\<lparr>selectedLevel := v\<rparr>))"


definition setAutoScroll :: "bool \<Rightarrow> logs_state \<Rightarrow> logs_state" where
  "setAutoScroll v s = s\<lparr>autoScroll := v\<rparr>"

definition click_refreshLogs :: "logs_state \<Rightarrow> logs_state \<times> effect list" where
  "click_refreshLogs s = (if isLoadingL s then (s, []) else fetchLogs s)"



text \<open>
  The operations of the log stream in the words of its contract: \<open>appendLive\<close> is the
  listener on a \<open>log\<close> message, \<open>loadPage\<close> a \<open>fetchLogs\<close> whose GET resolves.
\<close>

definition appendLive :: "log_entry \<Rightarrow> logs_state \<Rightarrow> logs_state" where
  "appendLive entry s = fst (handleMessage (Some (LogMsg entry)) s)"

definition appendLives :: "log_entry list \<Rightarrow> logs_state \<Rightarrow> logs_state" where
  "appendLives entries s = foldl (\<lambda>s' e. appendLive e s') s entries"

definition loadPage :: "log_entry list axios_response \<Rightarrow> logs_state \<Rightarrow> logs_state" where
  "loadPage response s = fst (fetchLogs_resume (Inr response) (fst (fetchLogs s)))"










section \<open>AppointmentSlots.js: the slot registry and the booking\<close>

record slots_state =
  slots :: "slot list"
  isLoadingS :: bool
  selectedSlot :: "slot option"
  showBookingModal :: bool
  bookingConfirmed :: bool

definition slots_init :: slots_state where
  "slots_init =
     \<lparr> slots = [], isLoadingS = False, selectedSlot = None, showBookingModal = False,
       bookingConfirmed = False \<rparr>"

definition fetchSlots :: "slots_state \<Rightarrow> slots_state \<times> effect list" where
  "fetchSlots s = (s\<lparr>isLoadingS := True\<rparr>, [Rest (GET ''/appointments/available'')])"

text \<open>The outcome carries \<open>response.data.slots\<close>.\<close>

definition fetchSlots_resume ::
  "slot list outcome \<Rightarrow> slots_state \<Rightarrow> slots_state \<times> effect list" where
  "fetchSlots_resume r s =
     (case r of
        Inr response \<Rightarrow> (s\<lparr>slots := resp_data response, isLoadingS := False\<rparr>, [])
      | Inl error \<Rightarrow> (s\<lparr>isLoadingS := False\<rparr>, [ConsoleError ''Failed to fetch slots:'']))"

definition handleBookSlot :: "slot \<Rightarrow> slots_state \<Rightarrow> slots_state" where
  "handleBookSlot sl s =
     s\<lparr>selectedSlot := Some sl, showBookingModal := True, bookingConfirmed := False\<rparr>"

text \<open>
  \<open>confirmBooking\<close> up to its \<open>await\<close>: the guard
  \<open>if (!selectedSlot || !bookingConfirmed) return\<close>, then the busy flag and the POST.
\<close>

definition confirmBooking :: "slots_state \<Rightarrow> slots_state \<times> effect list" where
  "confirmBooking s =
     (case selectedSlot s of
        None \<Rightarrow> (s, [])
      | Some sl \<Rightarrow>
          if \<not> bookingConfirmed s then (s, [])
          else (s\<lparr>isLoadingS := True\<rparr>,
                [Rest (POST ''/appointments/book'' (BookBody (slot_id sl) True))]))"

record booking_result =
  confirmation_id :: string

definition booked_text :: "string \<Rightarrow> string" where
  "booked_text cid =
     party_popper @ '' Appointment booked successfully!'' @ newline @ newline @
     ''Confirmation ID: '' @ cid @ newline @ newline @ ''Please check your email for details.''"

text \<open>
  \<open>confirmBooking\<close> after the \<open>await\<close>. On status 200: the alert, the modal closed,
  \<open>fetchSlots()\<close> started (not awaited) and \<open>onStatusUpdate()\<close>; on a rejected
  promise: the \<open>catch\<close> branch; in both cases the \<open>finally\<close> clears the busy flag.
\<close>

definition confirmBooking_resume ::
  "booking_result outcome \<Rightarrow> slots_state \<Rightarrow> slots_state \<times> effect list" where
  "confirmBooking_resume r s =
     (case r of
        Inr response \<Rightarrow>
          if resp_status response = 200 then
            (let (s', es) = fetchSlots (s\<lparr>showBookingModal := False\<rparr>)
             in (s'\<lparr>isLoadingS := False\<rparr>,
                 Alert (booked_text (confirmation_id (resp_data response))) # es @ onStatusUpdate))
          else (s\<lparr>isLoadingS := False\<rparr>, [])
      | Inl error \<Rightarrow>
          (s\<lparr>isLoadingS := False\<rparr>,
           [ConsoleError ''Booking failed:'',
            Alert (cross_mark @ '' Booking failed: '' @ detail_or_message error)]))"

text \<open>
  What the user and the network can do to the page. A button that is not rendered or is
  \<open>disabled\<close> does not call its handler: Refresh is disabled while \<open>isLoading\<close>,
  Book Now is rendered for the listed slots whose status is \<open>available\<close>, the modal
  (checkbox, Confirm Booking, Cancel) is rendered when \<open>showBookingModal && selectedSlot\<close>,
  and Confirm Booking is disabled when \<open>!bookingConfirmed || isLoading\<close>.
\<close>

datatype slots_event =
    ClickRefresh
  | ClickBookNow slot
  | ToggleConfirm bool
  | ClickConfirmBooking
  | ClickCancelBooking
  | FetchSlotsSettled "slot list outcome"
  | BookSettled "booking_result outcome"

definition modal_shown :: "slots_state \<Rightarrow> bool" where
  "modal_shown s = (showBookingModal s \<and> selectedSlot s \<noteq> None)"

definition click_confirmBooking :: "slots_state \<Rightarrow> slots_state \<times> effect list" where
  "click_confirmBooking s =
     (if modal_shown s \<and> \<not> (\<not> bookingConfirmed s \<or> isLoadingS s) then confirmBooking s
      else (s, []))"

fun slots_step :: "slots_event \<Rightarrow> slots_state \<Rightarrow> slots_state \<times> effect list" where
  "slots_step ClickRefresh s = (if isLoadingS s then (s, []) else fetchSlots s)"
| "slots_step (ClickBookNow sl) s =
     (if sl \<in> set (slots s) \<and> slot_status sl = ''available'' then (handleBookSlot sl s, [])
      else (s, []))"
| "slots_step (ToggleConfirm b) s =
     (if modal_shown s then (s\<lparr>bookingConfirmed := b\<rparr>, []) else (s, []))"
| "slots_step ClickConfirmBooking s = click_confirmBooking s"
| "slots_step ClickCancelBooking s =
     (if modal_shown s then (s\<lparr>showBookingModal := False\<rparr>, []) else (s, []))"
| "slots_step (FetchSlotsSettled r) s = fetchSlots_resume r s"
| "slots_step (BookSettled r) s = confirmBooking_resume r s"

text \<open>
  A session on the page: its events in order, the effects collected in order.
  \<open>slots_user\<close> tells the events of the user from the settling of a request.
\<close>

fun slots_user :: "slots_event \<Rightarrow> bool" where
  "slots_user (FetchSlotsSettled r) = False"
| "slots_user (BookSettled r) = False"
| "slots_user e = True"

fun slots_run :: "slots_event list \<Rightarrow> slots_state \<Rightarrow> slots_state \<times> effect list" where
  "slots_run [] s = (s, [])"
| "slots_run (e # tr) s =
     (let (s1, es1) = slots_step e s; (s2, es2) = slots_run tr s1 in (s2, es1 @ es2))"

text \<open>
  Requests in flight. \<open>slots_session\<close> follows a session together with the number of
  GETs of the slot list and the number of booking POSTs that have been sent and have not
  settled yet; a settling event with no request of its kind in flight is not a session
  (\<open>None\<close>).
\<close>

fun is_booking :: "request \<Rightarrow> bool" where
  "is_booking (POST p b) = (p = ''/appointments/book'')"
| "is_booking (GET p) = False"

fun is_slots_fetch :: "request \<Rightarrow> bool" where
  "is_slots_fetch (GET p) = (p = ''/appointments/available'')"
| "is_slots_fetch (POST p b) = False"

fun slots_session ::
  "slots_event list \<Rightarrow> slots_state \<Rightarrow> nat \<Rightarrow> nat \<Rightarrow> (slots_state \<times> nat \<times> nat) option" where
  "slots_session [] s g p = Some (s, g, p)"
| "slots_session (e # tr) s g p =
     (let (s', es) = slots_step e s;
          g' = g + length (filter is_slots_fetch (rest_calls es));
          p' = p + length (filter is_booking (rest_calls es))
      in case e of
           FetchSlotsSettled r \<Rightarrow> if g = 0 then None else slots_session tr s' (g' - 1) p'
         | BookSettled r \<Rightarrow> if p = 0 then None else slots_session tr s' g' (p' - 1)
         | _ \<Rightarrow> slots_session tr s' g' p')"

section \<open>SystemControls: start, stop and test check\<close>

record controls_state =
  isLoadingC :: bool
  checkInterval :: int
  showConfirmStop :: bool

definition controls_init :: controls_state where
  "controls_init = \<lparr> isLoadingC = False, checkInterval = 2, showConfirmStop = False \<rparr>"

definition startSystem :: "controls_state \<Rightarrow> controls_state \<times> effect list" where
  "startSystem s =
     (s\<lparr>isLoadingC := True\<rparr>, [Rest (POST ''/system/start'' (StartBody (checkInterval s)))])"

definition startSystem_resume ::
  "unit outcome \<Rightarrow> controls_state \<Rightarrow> controls_state \<times> effect list" where
  "startSystem_resume r s =
     (case r of
        Inr response \<Rightarrow>
          if resp_status response = 200 then
            (s\<lparr>isLoadingC := False\<rparr>,
             Alert (''System started successfully! '' @ rocket) # onStatusUpdate)
          else (s\<lparr>isLoadingC := False\<rparr>, [])
      | Inl error \<Rightarrow>
          (s\<lparr>isLoadingC := False\<rparr>,
           [ConsoleError ''Failed to start system:'',
            Alert (''Failed to start system: '' @ detail_or_message error)]))"

definition stopSystem :: "controls_state \<Rightarrow> controls_state \<times> effect list" where
  "stopSystem s = (s\<lparr>isLoadingC := True\<rparr>, [Rest (POST ''/system/stop'' NoBody)])"

definition stopSystem_resume ::
  "unit outcome \<Rightarrow> controls_state \<Rightarrow> controls_state \<times> effect list" where
  "stopSystem_resume r s =
     (case r of
        Inr response \<Rightarrow>
          if resp_status response = 200 then
            (s\<lparr>showConfirmStop := False, isLoadingC := False\<rparr>,
             Alert (''System stopped successfully! '' @ stop_sign) # onStatusUpdate)
          else (s\<lparr>isLoadingC := False\<rparr>, [])
      | Inl error \<Rightarrow>
          (s\<lparr>isLoadingC := False\<rparr>,
           [ConsoleError ''Failed to stop system:'',
            Alert (''Failed to stop system: '' @ detail_or_message error)]))"

text \<open>
  The body of the test check's answer. Its \<open>slots_found\<close> is named \<open>found\<close> here, and
  is held as the text that a template literal prints for the number, which is all the
  handlers do with it.
\<close>

record test_result =
  success :: bool
  found :: string

definition runTestCheck :: "controls_state \<Rightarrow> controls_state \<times> effect list" where
  "runTestCheck s = (s\<lparr>isLoadingC := True\<rparr>, [Rest (POST ''/test/check-once'' NoBody)])"

definition test_passed_text :: "string \<Rightarrow> string" where
  "test_passed_text n =
     check_mark @ '' Test completed successfully!'' @ newline @ newline @ ''Results:'' @ newline @
     bullet @ '' Slots found: '' @ n @ newline @
     bullet @ '' Check the Appointments tab for details.''"

definition runTestCheck_resume ::
  "test_result outcome \<Rightarrow> controls_state \<Rightarrow> controls_state \<times> effect list" where
  "runTestCheck_resume r s =
     (case r of
        Inr response \<Rightarrow>
          if success (resp_data response) then
            (s\<lparr>isLoadingC := False\<rparr>,
             Alert (test_passed_text (found (resp_data response))) # onStatusUpdate)
          else
            (s\<lparr>isLoadingC := False\<rparr>,
             [Alert (cross_mark @ '' Test check failed. Please check the logs for more details.'')])
      | Inl error \<Rightarrow>
          (s\<lparr>isLoadingC := False\<rparr>,
           [ConsoleError ''Test check failed:'',
            Alert (cross_mark @ '' Test check failed: '' @ detail_or_message error)]))"

text \<open>
  The page's controls, under the \<open>systemStatus\<close> prop \<open>st\<close> of the render. The start
  section is rendered when the status is \<open>stopped\<close>, the stop section when it is
  \<open>running\<close>. In the stop section, Stop System is shown while \<open>!showConfirmStop\<close>;
  Yes, Stop and Cancel are shown otherwise. Start System, Yes, Stop, Run Test Check and the
  interval select are disabled while \<open>isLoading\<close>.
\<close>

definition isSystemRunning :: "system_status \<Rightarrow> bool" where
  "isSystemRunning st = (status st = ''running'')"

definition isSystemStopped :: "system_status \<Rightarrow> bool" where
  "isSystemStopped st = (status st = ''stopped'')"

datatype controls_event =
    ClickStart
  | SelectInterval int
  | ClickStopSystem
  | ClickYesStop
  | ClickCancelStop
  | ClickRunTest
  | StartSettled "unit outcome"
  | StopSettled "unit outcome"
  | TestSettled "test_result outcome"

definition click_startSystem ::
  "system_status \<Rightarrow> controls_state \<Rightarrow> controls_state \<times> effect list" where
  "click_startSystem st s =
     (if isSystemStopped st \<and> \<not> isLoadingC s then startSystem s else (s, []))"

definition click_stopSystem ::
  "system_status \<Rightarrow> controls_state \<Rightarrow> controls_state \<times> effect list" where
  "click_stopSystem st s =
     (if isSystemRunning st \<and> showConfirmStop s \<and> \<not> isLoadingC s then stopSystem s
      else (s, []))"

definition click_runTestCheck :: "controls_state \<Rightarrow> controls_state \<times> effect list" where
  "click_runTestCheck s = (if \<not> isLoadingC s then runTestCheck s else (s, []))"

fun controls_step ::
  "system_status \<Rightarrow> controls_event \<Rightarrow> controls_state \<Rightarrow> controls_state \<times> effect list" where
  "controls_step st ClickStart s = click_startSystem st s"
| "controls_step st (SelectInterval n) s =
     (if isSystemStopped st \<and> \<not> isLoadingC s \<and> n \<in> set [1, 2, 3, 5, 10]
      then (s\<lparr>checkInterval := n\<rparr>, []) else (s, []))"
| "controls_step st ClickStopSystem s =
     (if isSystemRunning st \<and> \<not> showConfirmStop s then (s\<lparr>showConfirmStop := True\<rparr>, [])
      else (s, []))"
| "controls_step st ClickYesStop s = click_stopSystem st s"
| "controls_step st ClickCancelStop s =
     (if isSystemRunning st \<and> showConfirmStop s then (s\<lparr>showConfirmStop := False\<rparr>, [])
      else (s, []))"
| "controls_step st ClickRunTest s = click_runTestCheck s"
| "controls_step st (StartSettled r) s = startSystem_resume r s"
| "controls_step st (StopSettled r) s = stopSystem_resume r s"
| "controls_step st (TestSettled r) s = runTestCheck_resume r s"

text \<open>
  A session on the page: the events in order, each with the \<open>systemStatus\<close> prop of the
  render it happens in; the effects are collected in order.
\<close>

fun controls_run ::
  "(system_status \<times> controls_event) list \<Rightarrow> controls_state \<Rightarrow> controls_state \<times> effect list" where
  "controls_run [] s = (s, [])"
| "controls_run ((st, e) # tr) s =
     (let (s1, es1) = controls_step st e s; (s2, es2) = controls_run tr s1
      in (s2, es1 @ es2))"

text \<open>\<open>controls_user\<close> tells the events of the user from the settling of a request.\<close>

fun controls_user :: "controls_event \<Rightarrow> bool" where
  "controls_user (StartSettled r) = False"
| "controls_user (StopSettled r) = False"
| "controls_user (TestSettled r) = False"
| "controls_user e = True"

text \<open>
  Requests in flight. \<open>controls_session\<close> follows a session together with the number
  of POSTs of the page that have been sent and have not settled yet; a settling event
  when nothing is in flight is not a session (\<open>None\<close>).
\<close>

fun is_post :: "request \<Rightarrow> bool" where
  "is_post (POST p b) = True"
| "is_post (GET p) = False"

fun controls_session ::
  "(system_status \<times> controls_event) list \<Rightarrow> controls_state \<Rightarrow> nat \<Rightarrow>
     (controls_state \<times> nat) option" where
  "controls_session [] s n = Some (s, n)"
| "controls_session ((st, e) # tr) s n =
     (let (s', es) = controls_step st e s; sent = length (filter is_post (rest_calls es))
      in if controls_user e then controls_session tr s' (n + sent)
         else if n = 0 then None
         else controls_session tr s' (n + sent - 1))"

definition flag_tracks_flight :: "controls_state \<Rightarrow> nat \<Rightarrow> bool" where
  "flag_tracks_flight s n = (if isLoadingC s then n = 1 else n = 0)"

section \<open>Dashboard.js: the test check of the dashboard\<close>

record dashboard_state =
  recentLogs :: "log_entry list"
  availableSlots :: "slot list"
  isLoadingD :: bool

definition dashboard_init :: dashboard_state where
  "dashboard_init = \<lparr> recentLogs = [], availableSlots = [], isLoadingD = False \<rparr>"

text \<open>
  \<open>fetchRecentData\<close> has two awaits in a row. \<open>fetchRecentData_logs\<close> runs when the
  logs GET settles and \<open>fetchRecentData_slots\<close> when the slots GET settles; the flag
  \<open>awaited\<close> says that \<open>runTestCheck\<close> is waiting on the call, so that its own
  continuation (\<open>onStatusUpdate()\<close> and its \<open>finally\<close>) follows the end of the fetch.
\<close>

definition fetchRecentData :: "dashboard_state \<Rightarrow> dashboard_state \<times> effect list" where
  "fetchRecentData s = (s\<lparr>isLoadingD := True\<rparr>, [Rest (GET ''/logs?limit=10'')])"

definition fetchRecentData_end ::
  "bool \<Rightarrow> dashboard_state \<Rightarrow> dashboard_state \<times> effect list" where
  "fetchRecentData_end awaited s =
     (s\<lparr>isLoadingD := False\<rparr>, if awaited then onStatusUpdate else [])"

definition fetchRecentData_logs ::
  "bool \<Rightarrow> log_entry list outcome \<Rightarrow> dashboard_state \<Rightarrow> dashboard_state \<times> effect list" where
  "fetchRecentData_logs awaited r s =
     (case r of
        Inr response \<Rightarrow>
          (s\<lparr>recentLogs := resp_data response\<rparr>, [Rest (GET ''/appointments/available?limit=5'')])
      | Inl error \<Rightarrow>
          (let (s', es) = fetchRecentData_end awaited s
           in (s', ConsoleError ''Failed to fetch dashboard data:'' # es)))"

definition fetchRecentData_slots ::
  "bool \<Rightarrow> slot list outcome \<Rightarrow> dashboard_state \<Rightarrow> dashboard_state \<times> effect list" where
  "fetchRecentData_slots awaited r s =
     (case r of
        Inr response \<Rightarrow> fetchRecentData_end awaited (s\<lparr>availableSlots := resp_data response\<rparr>)
      | Inl error \<Rightarrow>
          (let (s', es) = fetchRecentData_end awaited s
           in (s', ConsoleError ''Failed to fetch dashboard data:'' # es)))"

definition dashboard_runTestCheck :: "dashboard_state \<Rightarrow> dashboard_state \<times> effect list" where
  "dashboard_runTestCheck s =
     (s\<lparr>isLoadingD := True\<rparr>, [Rest (POST ''/test/check-once'' NoBody)])"

definition dashboard_runTestCheck_resume ::
  "test_result outcome \<Rightarrow> dashboard_state \<Rightarrow> dashboard_state \<times> effect list" where
  "dashboard_runTestCheck_resume r s =
     (case r of
        Inr response \<Rightarrow>
          if success (resp_data response) then
            (let (s', es) = fetchRecentData s
             in (s', Alert (''Test completed! Found '' @ found (resp_data response)
                            @ '' slots.'') # es))
          else (s\<lparr>isLoadingD := False\<rparr>, [Alert ''Test check failed. Check logs for details.''])
      | Inl error \<Rightarrow>
          (s\<lparr>isLoadingD := False\<rparr>,
           [ConsoleError ''Test check failed:'',
            Alert (''Test check failed: '' @ err_message error)]))"

text \<open>The Test Check button of the dashboard is disabled while \<open>isLoading\<close>.\<close>

definition click_dashboard_runTestCheck ::
  "dashboard_state \<Rightarrow> dashboard_state \<times> effect list" where
  "click_dashboard_runTestCheck s = (if \<not> isLoadingD s then dashboard_runTestCheck s else (s, []))"

section \<open>The client as a whole\<close>

text \<open>
  The state of the client is the state of \<open>App\<close> and of the pages, side by side. A
  handler of the log page reads and writes the state of the log page only.
\<close>

record client =
  app :: app_state
  controls :: controls_state
  slotsView :: slots_state
  logsView :: logs_state
  dashboard :: dashboard_state

definition in_logsView ::
  "(logs_state \<Rightarrow> logs_state \<times> effect list) \<Rightarrow> client \<Rightarrow> client \<times> effect list" where
  "in_logsView h c = (let (l, es) = h (logsView c) in (c\<lparr>logsView := l\<rparr>, es))"

definition client_clearLogs :: "bool \<Rightarrow> client \<Rightarrow> client \<times> effect list" where
  "client_clearLogs answer c = in_logsView (clearLogs answer) c"

section \<open>Sample data\<close>

definition status_running :: system_status where
  "status_running =
     \<lparr> status = ''running'', last_check = Some ''2024-05-01T10:00:00'', total_checks = 7,
       slots_found = 2, successful_bookings = 0, error_count = 1, uptime_minutes = 14 \<rparr>"

definition status_error :: system_status where
  "status_error =
     \<lparr> status = ''error'', last_check = Some ''2024-05-01T10:02:00'', total_checks = 8,
       slots_found = 2, successful_bookings = 0, error_count = 2, uptime_minutes = 0 \<rparr>"

definition entry_login :: log_entry where
  "entry_login =
     \<lparr> level = ''info'', step = Some (latin ''STEP1_LOGIN''),
       message = latin ''Submitting email'',
       timestamp = ''2024-05-01T10:00:01'', details = None \<rparr>"

definition entry_captcha :: log_entry where
  "entry_captcha =
     \<lparr> level = ''error'', step = None, message = latin ''Captcha not solved'',
       timestamp = ''2024-05-01T10:00:05'', details = None \<rparr>"



definition slot_a :: slot where
  "slot_a =
     \<lparr> slot_id = ''a1'', slot_status = ''available'', visa_type = Some ''Tourist'',
       visa_category = None, location = Some ''Algiers'', appointment_date = Some ''2024-06-01'',
       appointment_time = Some ''09:30'', found_at = Some ''2024-05-01T10:00:09'',
       available_slots = Some 1, booking_details = None \<rparr>"

definition slot_b :: slot where
  "slot_b = slot_a\<lparr>slot_id := ''b2'', appointment_time := Some ''11:00''\<rparr>"

definition error_500 :: axios_error where
  "error_500 =
     \<lparr> err_response = Some \<lparr> eresp_status = 500,
                              eresp_data = Some \<lparr> detail = Some ''Automation busy'' \<rparr> \<rparr>,
       err_message = ''Request failed with status code 500'' \<rparr>"

definition error_network :: axios_error where
  "error_network = \<lparr> err_response = None, err_message = ''Network Error'' \<rparr>"

definition slots_confirming :: slots_state where
  "slots_confirming =
     \<lparr> slots = [slot_a], isLoadingS = False, selectedSlot = Some slot_a,
       showBookingModal = True, bookingConfirmed = True \<rparr>"

text \<open>The three pages right after an accepted start, booking and dashboard test check.\<close>

definition controls_started :: controls_state where
  "controls_started = fst (click_startSystem (systemStatus app_init) controls_init)"

definition slots_booking :: slots_state where
  "slots_booking = fst (click_confirmBooking slots_confirming)"

definition dashboard_testing :: dashboard_state where
  "dashboard_testing = fst (click_dashboard_runTestCheck dashboard_init)"

text \<open>
  The slots page right after it is mounted, its first GET in flight, and a session on
  it: the list arrives, the user books the first slot, the booking succeeds and starts
  the refresh, the user books the second slot while the refresh is in flight, and the
  refresh settles.
\<close>

definition slots_mounted :: slots_state where
  "slots_mounted = fst (fetchSlots slots_init)"

definition race_prefix :: "slots_event list" where
  "race_prefix =
     [FetchSlotsSettled (Inr \<lparr>resp_status = 200, resp_data = [slot_a, slot_b]\<rparr>),
      ClickBookNow slot_a, ToggleConfirm True, ClickConfirmBooking,
      BookSettled (Inr \<lparr>resp_status = 200, resp_data = \<lparr>confirmation_id = ''X9''\<rparr>\<rparr>),
      ClickBookNow slot_b, ToggleConfirm True, ClickConfirmBooking,
      FetchSlotsSettled (Inr \<lparr>resp_status = 200, resp_data = [slot_b]\<rparr>)]"

definition client_sample :: client where
  "client_sample =
     \<lparr> app = app_init\<lparr>systemStatus := status_running\<rparr>,
       controls = controls_init,
       slotsView = slots_confirming,
       logsView = logs_init\<lparr>logs := [entry_captcha, entry_login],
                            searchTerm := latin ''captcha''\<rparr>,
       dashboard = dashboard_init \<rparr>"

section \<open>Properties\<close>

lemma current_apply_call: "current (apply_call c s) = payload c"
  by (cases c) (simp_all add: current_def fetchSystemStatus_resume_def onmessage_def)

text \<open>
  C1. The status store is last-write-wins. Every applySnapshot (resolved REST status
  fetch) and every applyPush (system_status push message) replaces the whole
  SystemStatus record by its payload, so after any non-empty sequence of such calls
  current() is the payload of the last call, whichever channel it came from.
\<close>

theorem status_store_last_write_wins:
  "current (apply_call c s) = payload c \<and>
   (cs \<noteq> [] \<longrightarrow> current (apply_calls cs s) = payload (last cs))"
proof
  show "current (apply_call c s) = payload c"
    by (rule current_apply_call)
next
  show "cs \<noteq> [] \<longrightarrow> current (apply_calls cs s) = payload (last cs)"
  proof (induction cs rule: rev_induct)
    case Nil
    show ?case by simp
  next
    case (snoc c cs)
    show ?case by (simp add: apply_calls_def current_apply_call)
  qed
qed

theorem status_store_last_write_wins_witness:
  "[applyPush status_error, applySnapshot \<lparr>resp_status = 200, resp_data = status_running\<rparr>] \<noteq> [] \<and>
   current (apply_calls [applyPush status_error,
       applySnapshot \<lparr>resp_status = 200, resp_data = status_running\<rparr>] app_init) = status_running \<and>
   current (apply_call (applyPush status_error) app_init) = status_error"
  using status_store_last_write_wins [of "applyPush status_error" app_init
      "[applyPush status_error, applySnapshot \<lparr>resp_status = 200, resp_data = status_running\<rparr>]"]
  by simp

subsection \<open>REST calls among the effects\<close>

lemma set_rest_calls: "set (rest_calls es) = {r. Rest r \<in> set es}"
  by (induction es rule: rest_calls.induct) auto

lemma rest_calls_append: "rest_calls (xs @ ys) = rest_calls xs @ rest_calls ys"
  by (induction xs rule: rest_calls.induct) auto

lemma rest_calls_onStatusUpdate: "rest_calls onStatusUpdate = [GET ''/system/status'']"
  by (simp add: onStatusUpdate_def fetchSystemStatus_def)

subsection \<open>The booking confirmation\<close>

lemma confirmBooking_rejected:
  "selectedSlot s = None \<or> \<not> bookingConfirmed s \<Longrightarrow> confirmBooking s = (s, [])"
  by (auto simp: confirmBooking_def split: option.splits)

lemma confirmBooking_post:
  "POST p b \<in> set (rest_calls (snd (confirmBooking s))) \<Longrightarrow>
   bookingConfirmed s \<and> (\<exists>sl. selectedSlot s = Some sl \<and> b = BookBody (slot_id sl) True)"
  by (auto simp: confirmBooking_def split: option.splits if_splits)

lemma slots_step_post:
  "POST p b \<in> set (rest_calls (snd (slots_step e s))) \<Longrightarrow> e = ClickConfirmBooking"
  by (cases e)
     (auto simp: fetchSlots_def fetchSlots_resume_def handleBookSlot_def confirmBooking_resume_def
        rest_calls_append rest_calls_onStatusUpdate
        split: if_splits sum.splits)

text \<open>
  C2. In every state in which the confirmation flag is false or no slot is selected,
  confirmBooking returns at its guard: the state is unchanged and no REST call (nor any
  other effect) is issued. Conversely, whatever event happens on the page, a POST is sent
  only by the Confirm Booking control in a state whose confirmation flag is true, and
  its body is the selected slot's id with confirm_booking true.
\<close>

theorem booking_requires_confirmation:
  "(selectedSlot s = None \<or> \<not> bookingConfirmed s \<longrightarrow> confirmBooking s = (s, [])) \<and>
   (POST p b \<in> set (rest_calls (snd (slots_step e s))) \<longrightarrow>
      e = ClickConfirmBooking \<and> bookingConfirmed s \<and>
      (\<exists>sl. selectedSlot s = Some sl \<and> b = BookBody (slot_id sl) True))"
proof (intro conjI impI)
  assume "selectedSlot s = None \<or> \<not> bookingConfirmed s"
  then show "confirmBooking s = (s, [])" by (rule confirmBooking_rejected)
next
  assume post: "POST p b \<in> set (rest_calls (snd (slots_step e s)))"
  then show e: "e = ClickConfirmBooking" by (rule slots_step_post)
  with post have "POST p b \<in> set (rest_calls (snd (confirmBooking s)))"
    by (simp add: click_confirmBooking_def split: if_splits)
  then have both:
    "bookingConfirmed s \<and> (\<exists>sl. selectedSlot s = Some sl \<and> b = BookBody (slot_id sl) True)"
    by (rule confirmBooking_post)
  from both show "bookingConfirmed s" ..
  from both show "\<exists>sl. selectedSlot s = Some sl \<and> b = BookBody (slot_id sl) True" ..
qed

theorem booking_requires_confirmation_witness:
  "(selectedSlot (slots_confirming\<lparr>bookingConfirmed := False\<rparr>) = None \<or>
      \<not> bookingConfirmed (slots_confirming\<lparr>bookingConfirmed := False\<rparr>)) \<and>
   confirmBooking (slots_confirming\<lparr>bookingConfirmed := False\<rparr>) =
      (slots_confirming\<lparr>bookingConfirmed := False\<rparr>, []) \<and>
   POST ''/appointments/book'' (BookBody ''a1'' True)
      \<in> set (rest_calls (snd (slots_step ClickConfirmBooking slots_confirming))) \<and>
   bookingConfirmed slots_confirming"
  using booking_requires_confirmation
          [of "slots_confirming\<lparr>bookingConfirmed := False\<rparr>" "''/appointments/book''"
              "BookBody ''a1'' True" ClickConfirmBooking]
        booking_requires_confirmation
          [of slots_confirming "''/appointments/book''" "BookBody ''a1'' True" ClickConfirmBooking]
  by (simp add: slots_confirming_def slot_a_def click_confirmBooking_def modal_shown_def
        confirmBooking_def)

subsection \<open>The busy flag\<close>

lemma controls_busy_rejects:
  "isLoadingC s \<Longrightarrow>
   click_startSystem st s = (s, []) \<and> click_stopSystem st s = (s, []) \<and>
   click_runTestCheck s = (s, [])"
  by (simp add: click_startSystem_def click_stopSystem_def click_runTestCheck_def)

lemma controls_accept_sets_flag:
  "(rest_calls (snd (click_startSystem st s)) \<noteq> [] \<longrightarrow> isLoadingC (fst (click_startSystem st s))) \<and>
   (rest_calls (snd (click_stopSystem st s)) \<noteq> [] \<longrightarrow> isLoadingC (fst (click_stopSystem st s))) \<and>
   (rest_calls (snd (click_runTestCheck s)) \<noteq> [] \<longrightarrow> isLoadingC (fst (click_runTestCheck s)))"
  by (simp add: click_startSystem_def click_stopSystem_def click_runTestCheck_def
        startSystem_def stopSystem_def runTestCheck_def)

lemma booking_busy_rejects: "isLoadingS b \<Longrightarrow> click_confirmBooking b = (b, [])"
  by (simp add: click_confirmBooking_def)

lemma booking_accept_sets_flag:
  "rest_calls (snd (click_confirmBooking b)) \<noteq> [] \<Longrightarrow> isLoadingS (fst (click_confirmBooking b))"
  by (auto simp: click_confirmBooking_def confirmBooking_def split: if_splits option.splits)

lemma dashboard_busy_rejects: "isLoadingD d \<Longrightarrow> click_dashboard_runTestCheck d = (d, [])"
  by (simp add: click_dashboard_runTestCheck_def)

lemma dashboard_accept_sets_flag:
  "rest_calls (snd (click_dashboard_runTestCheck d)) \<noteq> [] \<Longrightarrow>
   isLoadingD (fst (click_dashboard_runTestCheck d))"
  by (simp add: click_dashboard_runTestCheck_def dashboard_runTestCheck_def split: if_splits)

lemma controls_busy_step:
  "isLoadingC s \<Longrightarrow> controls_user e \<Longrightarrow>
   isLoadingC (fst (controls_step st e s)) \<and> snd (controls_step st e s) = []"
  by (cases e)
     (simp_all add: click_startSystem_def click_stopSystem_def click_runTestCheck_def)

lemma controls_busy_run:
  "isLoadingC s \<Longrightarrow> list_all (\<lambda>x. controls_user (snd x)) tr \<Longrightarrow>
   isLoadingC (fst (controls_run tr s)) \<and> snd (controls_run tr s) = []"
proof (induction tr arbitrary: s)
  case Nil
  then show ?case by simp
next
  case (Cons x tr)
  obtain st e where x: "x = (st, e)" by (cases x)
  with Cons.prems have step: "isLoadingC (fst (controls_step st e s)) \<and> snd (controls_step st e s) = []"
    by (simp add: controls_busy_step)
  with Cons.prems have "isLoadingC (fst (controls_run tr (fst (controls_step st e s)))) \<and>
      snd (controls_run tr (fst (controls_step st e s))) = []"
    by (intro Cons.IH) simp_all
  with step x show ?case
    by (simp add: case_prod_beta)
qed

lemma slots_busy_step:
  "isLoadingS s \<Longrightarrow> slots_user e \<Longrightarrow>
   isLoadingS (fst (slots_step e s)) \<and> snd (slots_step e s) = []"
  by (cases e) (simp_all add: click_confirmBooking_def handleBookSlot_def)

lemma slots_busy_run:
  "isLoadingS s \<Longrightarrow> list_all slots_user tr \<Longrightarrow>
   isLoadingS (fst (slots_run tr s)) \<and> snd (slots_run tr s) = []"
proof (induction tr arbitrary: s)
  case Nil
  then show ?case by simp
next
  case (Cons e tr)
  then have step: "isLoadingS (fst (slots_step e s)) \<and> snd (slots_step e s) = []"
    by (simp add: slots_busy_step)
  with Cons.prems have "isLoadingS (fst (slots_run tr (fst (slots_step e s)))) \<and>
      snd (slots_run tr (fst (slots_step e s))) = []"
    by (intro Cons.IH) simp_all
  with step show ?case
    by (simp add: case_prod_beta)
qed

lemma controls_started_eq:
  "controls_started = \<lparr>isLoadingC = True, checkInterval = 2, showConfirmStop = False\<rparr>"
  by (simp add: controls_started_def click_startSystem_def startSystem_def isSystemStopped_def
        app_init_def controls_init_def)

lemma slots_booking_eq: "slots_booking = slots_confirming\<lparr>isLoadingS := True\<rparr>"
  by (simp add: slots_booking_def click_confirmBooking_def confirmBooking_def modal_shown_def
        slots_confirming_def)

lemma dashboard_testing_eq: "dashboard_testing = dashboard_init\<lparr>isLoadingD := True\<rparr>"
  by (simp add: dashboard_testing_def click_dashboard_runTestCheck_def dashboard_runTestCheck_def
        dashboard_init_def)

text \<open>
  The busy flag where it is set. In every state whose busy flag is set, the control of
  start, of stop, of the test check (on the controls page and on the dashboard) and of
  the booking leaves the state as it is and issues no REST call. An invocation that is
  accepted, that is one that issues its REST call, sets the flag; and from a state whose
  flag is set, however the user goes on clicking, the flag stays set and no REST call is
  issued until a request settles.
\<close>

lemma busy_flag_rejects:
  "(isLoadingC s \<longrightarrow>
      click_startSystem st s = (s, []) \<and> click_stopSystem st s = (s, []) \<and>
      click_runTestCheck s = (s, [])) \<and>
   (isLoadingS b \<longrightarrow> click_confirmBooking b = (b, [])) \<and>
   (isLoadingD d \<longrightarrow> click_dashboard_runTestCheck d = (d, [])) \<and>
   (rest_calls (snd (click_startSystem st s)) \<noteq> [] \<longrightarrow> isLoadingC (fst (click_startSystem st s))) \<and>
   (rest_calls (snd (click_stopSystem st s)) \<noteq> [] \<longrightarrow> isLoadingC (fst (click_stopSystem st s))) \<and>
   (rest_calls (snd (click_runTestCheck s)) \<noteq> [] \<longrightarrow> isLoadingC (fst (click_runTestCheck s))) \<and>
   (rest_calls (snd (click_confirmBooking b)) \<noteq> [] \<longrightarrow> isLoadingS (fst (click_confirmBooking b))) \<and>
   (rest_calls (snd (click_dashboard_runTestCheck d)) \<noteq> [] \<longrightarrow>
      isLoadingD (fst (click_dashboard_runTestCheck d))) \<and>
   (isLoadingC s \<and> list_all (\<lambda>x. controls_user (snd x)) tr \<longrightarrow>
      isLoadingC (fst (controls_run tr s)) \<and> snd (controls_run tr s) = []) \<and>
   (isLoadingS b \<and> list_all slots_user tb \<longrightarrow>
      isLoadingS (fst (slots_run tb b)) \<and> snd (slots_run tb b) = [])"
  using controls_busy_rejects [of s st] controls_accept_sets_flag [of st s]
    booking_busy_rejects [of b] booking_accept_sets_flag [of b]
    dashboard_busy_rejects [of d] dashboard_accept_sets_flag [of d]
    controls_busy_run [of s tr] slots_busy_run [of b tb]
  by blast

lemma busy_flag_rejects_example:
  "rest_calls (snd (click_startSystem (systemStatus app_init) controls_init))
     = [POST ''/system/start'' (StartBody 2)] \<and>
   isLoadingC controls_started \<and>
   click_startSystem (systemStatus app_init) controls_started = (controls_started, []) \<and>
   list_all (\<lambda>x. controls_user (snd x))
     [(systemStatus app_init, ClickStart), (status_running, ClickStopSystem),
      (status_running, ClickYesStop), (status_running, ClickRunTest)] \<and>
   snd (controls_run [(systemStatus app_init, ClickStart), (status_running, ClickStopSystem),
      (status_running, ClickYesStop), (status_running, ClickRunTest)] controls_started) = [] \<and>
   rest_calls (snd (click_confirmBooking slots_confirming))
     = [POST ''/appointments/book'' (BookBody ''a1'' True)] \<and>
   isLoadingS slots_booking \<and>
   click_confirmBooking slots_booking = (slots_booking, []) \<and>
   list_all slots_user [ClickConfirmBooking, ToggleConfirm True, ClickConfirmBooking] \<and>
   snd (slots_run [ClickConfirmBooking, ToggleConfirm True, ClickConfirmBooking] slots_booking) = [] \<and>
   isLoadingD dashboard_testing \<and>
   click_dashboard_runTestCheck dashboard_testing = (dashboard_testing, [])"
  using busy_flag_rejects
          [of controls_started "systemStatus app_init" slots_booking dashboard_testing
              "[(systemStatus app_init, ClickStart), (status_running, ClickStopSystem),
                (status_running, ClickYesStop), (status_running, ClickRunTest)]"
              "[ClickConfirmBooking, ToggleConfirm True, ClickConfirmBooking]"]
        busy_flag_rejects
          [of controls_init "systemStatus app_init" slots_confirming dashboard_init "[]" "[]"]
  unfolding controls_started_eq slots_booking_eq dashboard_testing_eq
  by (simp add: click_startSystem_def startSystem_def isSystemStopped_def app_init_def
        controls_init_def click_confirmBooking_def confirmBooking_def modal_shown_def
        slots_confirming_def slot_a_def dashboard_init_def)

text \<open>
  While the controls page stays mounted, its flag is set exactly while a POST of the page
  is in flight, and at most one is in flight at any time. (A page that is left and opened
  again starts from its initial state, with the flag cleared, whatever is still in
  flight; the sessions here have no such event.)
\<close>

lemma flag_tracks_flight_step:
  "flag_tracks_flight s n \<Longrightarrow> controls_user e \<or> n \<noteq> 0 \<Longrightarrow>
   flag_tracks_flight (fst (controls_step st e s))
     (n + length (filter is_post (rest_calls (snd (controls_step st e s))))
        - (if controls_user e then 0 else 1))"
  by (cases e)
     (auto simp: flag_tracks_flight_def click_startSystem_def click_stopSystem_def
        click_runTestCheck_def startSystem_def stopSystem_def runTestCheck_def
        startSystem_resume_def stopSystem_resume_def runTestCheck_resume_def
        rest_calls_onStatusUpdate
        split: if_splits sum.splits)

lemma controls_flag_tracks_flight:
  "controls_session tr s n = Some (s', n') \<Longrightarrow> flag_tracks_flight s n \<Longrightarrow>
   flag_tracks_flight s' n'"
proof (induction tr arbitrary: s n)
  case Nil
  then show ?case by simp
next
  case (Cons x tr)
  obtain st e where x: "x = (st, e)" by (cases x)
  let ?s1 = "fst (controls_step st e s)"
  let ?sent = "length (filter is_post (rest_calls (snd (controls_step st e s))))"
  show ?case
  proof (cases "controls_user e")
    case True
    with Cons.prems(1) x have run: "controls_session tr ?s1 (n + ?sent) = Some (s', n')"
      by (simp add: case_prod_beta Let_def)
    from Cons.prems(2) True have "flag_tracks_flight ?s1 (n + ?sent)"
      using flag_tracks_flight_step [of s n e st] by simp
    with run show ?thesis by (rule Cons.IH)
  next
    case False
    with Cons.prems(1) x have n: "n \<noteq> 0"
      by (auto simp: case_prod_beta Let_def split: if_splits)
    with False Cons.prems(1) x
    have run: "controls_session tr ?s1 (n + ?sent - 1) = Some (s', n')"
      by (simp add: case_prod_beta Let_def)
    from Cons.prems(2) False n have "flag_tracks_flight ?s1 (n + ?sent - 1)"
      using flag_tracks_flight_step [of s n e st] by simp
    with run show ?thesis by (rule Cons.IH)
  qed
qed

lemma controls_one_in_flight:
  "controls_session tr controls_init 0 = Some (s', n') \<Longrightarrow>
   n' \<le> 1 \<and> (isLoadingC s' \<longleftrightarrow> n' = 1)"
  using controls_flag_tracks_flight [of tr controls_init 0 s' n']
  by (auto simp: flag_tracks_flight_def controls_init_def split: if_splits)

text \<open>
  The slots page has one busy flag for the refresh and for the booking: the \<open>finally\<close>
  of either clears it, whichever request set it.
\<close>

lemma slots_flag_cleared_on_settle:
  "\<not> isLoadingS (fst (fetchSlots_resume r s)) \<and> \<not> isLoadingS (fst (confirmBooking_resume r' s))"
  by (simp add: fetchSlots_resume_def confirmBooking_resume_def fetchSlots_def case_prod_beta
        split: sum.splits)

text \<open>
  C3. A second invocation of an action while a first one is in flight is to be rejected
  client-side, with no further REST call. The booking is not held to that. In the
  session \<open>race_prefix\<close> the refresh that follows a successful booking settles after the
  next booking has been sent. At its end one booking POST is in flight and no GET, the
  busy flag is cleared, and the Confirm Booking control accepts a second invocation: it
  sends the POST for the same slot again, so that two booking POSTs are in flight.
\<close>

theorem booking_sent_again_in_flight:
  "map_option snd (slots_session race_prefix slots_mounted 1 0) = Some (0, 1) \<and>
   rest_calls (snd (slots_run race_prefix slots_mounted)) =
     [POST ''/appointments/book'' (BookBody ''a1'' True),
      GET ''/appointments/available'', GET ''/system/status'',
      POST ''/appointments/book'' (BookBody ''b2'' True)] \<and>
   \<not> isLoadingS (fst (slots_run race_prefix slots_mounted)) \<and>
   rest_calls (snd (click_confirmBooking (fst (slots_run race_prefix slots_mounted)))) =
     [POST ''/appointments/book'' (BookBody ''b2'' True)] \<and>
   map_option snd (slots_session (race_prefix @ [ClickConfirmBooking]) slots_mounted 1 0) =
     Some (0, 2)"
  by code_simp

theorem booking_sent_again_in_flight_witness:
  "\<not> isLoadingS (fst (slots_run race_prefix slots_mounted)) \<and>
   rest_calls (snd (click_confirmBooking (fst (slots_run race_prefix slots_mounted)))) \<noteq> []"
  using booking_sent_again_in_flight by simp

subsection \<open>The slot registry\<close>

lemma confirmBooking_failed:
  "confirmBooking_resume (Inl error) s =
     (s\<lparr>isLoadingS := False\<rparr>,
      [ConsoleError ''Booking failed:'',
       Alert (cross_mark @ '' Booking failed: '' @ detail_or_message error)])"
  by (simp add: confirmBooking_resume_def)

lemma slots_changed_only_by_refresh:
  "slots (fst (slots_step e s)) \<noteq> slots s \<Longrightarrow>
   \<exists>response. e = FetchSlotsSettled (Inr response) \<and> slots (fst (slots_step e s)) = resp_data response"
  by (cases e)
     (auto simp: fetchSlots_def fetchSlots_resume_def handleBookSlot_def confirmBooking_resume_def
        click_confirmBooking_def confirmBooking_def
        split: if_splits sum.splits option.splits)

text \<open>
  C4. When the booking POST is rejected (a non-2xx answer or a transport failure), the
  failure branch of confirmBooking only clears the busy flag: the slot collection, and
  with it the status of the targeted slot, is what it was, and no REST call is issued.
  Of all events of the page, only a resolved GET of /appointments/available changes the
  slot collection, and it sets it to the fetched list.
\<close>

theorem failed_booking_keeps_slots:
  "fst (confirmBooking_resume (Inl error) s) = s\<lparr>isLoadingS := False\<rparr> \<and>
   slots (fst (confirmBooking_resume (Inl error) s)) = slots s \<and>
   rest_calls (snd (confirmBooking_resume (Inl error) s)) = [] \<and>
   (slots (fst (slots_step e s)) \<noteq> slots s \<longrightarrow>
      (\<exists>response. e = FetchSlotsSettled (Inr response) \<and>
         slots (fst (slots_step e s)) = resp_data response))"
  using slots_changed_only_by_refresh [of e s]
  by (simp add: confirmBooking_failed)

theorem failed_booking_keeps_slots_witness:
  "slots (fst (slots_step (FetchSlotsSettled (Inr \<lparr>resp_status = 200, resp_data = []\<rparr>))
                 slots_confirming)) \<noteq> slots slots_confirming \<and>
   slots (fst (slots_step (FetchSlotsSettled (Inr \<lparr>resp_status = 200, resp_data = []\<rparr>))
                 slots_confirming)) = [] \<and>
   slots (fst (slots_step (BookSettled (Inl error_500)) slots_confirming)) = [slot_a]"
  using failed_booking_keeps_slots
          [of error_500 slots_confirming
              "FetchSlotsSettled (Inr \<lparr>resp_status = 200, resp_data = []\<rparr>)"]
  by (simp add: fetchSlots_resume_def slots_confirming_def)

subsection \<open>The stop confirmation\<close>

lemma stop_post_step:
  "POST ''/system/stop'' b \<in> set (rest_calls (snd (controls_step st e s))) \<Longrightarrow>
   e = ClickYesStop \<and> showConfirmStop s \<and> isSystemRunning st \<and> \<not> isLoadingC s"
  by (cases e)
     (auto simp: click_startSystem_def click_stopSystem_def click_runTestCheck_def
        startSystem_def stopSystem_def runTestCheck_def
        startSystem_resume_def stopSystem_resume_def runTestCheck_resume_def
        rest_calls_onStatusUpdate
        split: if_splits sum.splits)

lemma confirm_step:
  "showConfirmStop (fst (controls_step st e s)) \<Longrightarrow> showConfirmStop s \<or> e = ClickStopSystem"
  by (cases e)
     (auto simp: click_startSystem_def click_stopSystem_def click_runTestCheck_def
        startSystem_def stopSystem_def runTestCheck_def
        startSystem_resume_def stopSystem_resume_def runTestCheck_resume_def
        split: if_splits sum.splits)

lemma controls_run_Cons:
  "controls_run ((st, e) # tr) s =
     (fst (controls_run tr (fst (controls_step st e s))),
      snd (controls_step st e s) @ snd (controls_run tr (fst (controls_step st e s))))"
  by (simp add: case_prod_beta)

lemma stop_post_run:
  "POST ''/system/stop'' b \<in> set (rest_calls (snd (controls_run tr s))) \<Longrightarrow>
   (showConfirmStop s \<and> (\<exists>tr2 st2 tr3. tr = tr2 @ (st2, ClickYesStop) # tr3)) \<or>
   (\<exists>tr1 st1 tr2 st2 tr3. tr = tr1 @ (st1, ClickStopSystem) # tr2 @ (st2, ClickYesStop) # tr3)"
proof (induction tr arbitrary: s)
  case Nil
  then show ?case by simp
next
  case (Cons x tr)
  obtain st e where x: "x = (st, e)" by (cases x)
  let ?s1 = "fst (controls_step st e s)"
  from Cons.prems x
  consider (now) "POST ''/system/stop'' b \<in> set (rest_calls (snd (controls_step st e s)))"
    | (later) "POST ''/system/stop'' b \<in> set (rest_calls (snd (controls_run tr ?s1)))"
    by (auto simp: controls_run_Cons rest_calls_append simp del: controls_run.simps)
  then show ?case
  proof cases
    case now
    then have "e = ClickYesStop" and "showConfirmStop s"
      using stop_post_step by blast+
    with x have "showConfirmStop s \<and> x # tr = [] @ (st, ClickYesStop) # tr" by simp
    then show ?thesis by blast
  next
    case later
    from Cons.IH [OF later]
    consider (open_) tr2 st2 tr3 where "showConfirmStop ?s1" "tr = tr2 @ (st2, ClickYesStop) # tr3"
      | (both) tr1 st1 tr2 st2 tr3
        where "tr = tr1 @ (st1, ClickStopSystem) # tr2 @ (st2, ClickYesStop) # tr3"
      by blast
    then show ?thesis
    proof cases
      case open_
      from open_(1) have "showConfirmStop s \<or> e = ClickStopSystem" by (rule confirm_step)
      then show ?thesis
      proof
        assume "showConfirmStop s"
        moreover from open_(2) have "x # tr = (x # tr2) @ (st2, ClickYesStop) # tr3" by simp
        ultimately show ?thesis by blast
      next
        assume "e = ClickStopSystem"
        with x open_(2)
        have "x # tr = [] @ (st, ClickStopSystem) # tr2 @ (st2, ClickYesStop) # tr3" by simp
        then show ?thesis by blast
      qed
    next
      case both
      then have "x # tr = (x # tr1) @ (st1, ClickStopSystem) # tr2 @ (st2, ClickYesStop) # tr3"
        by simp
      then show ?thesis by blast
    qed
  qed
qed

lemma stop_resume_success:
  "resp_status response = 200 \<Longrightarrow> \<not> showConfirmStop (fst (stopSystem_resume (Inr response) s))"
  by (simp add: stopSystem_resume_def)

lemma stop_resume_failure:
  "showConfirmStop (fst (stopSystem_resume (Inl error) s)) = showConfirmStop s"
  by (simp add: stopSystem_resume_def)

text \<open>
  C5. Stop is two-phase. Whatever event happens on the controls page, the POST of
  /system/stop is sent only by the Yes, Stop control in a state whose showConfirmStop is
  true; in a session that starts from the initial state, a sent stop POST is preceded by
  a click on Stop System (the request) and then one on Yes, Stop (the confirmation).
  When the POST resolves with status 200, showConfirmStop becomes false; when it is
  rejected, showConfirmStop keeps its value.
\<close>

theorem stop_is_two_phase:
  "(POST ''/system/stop'' b \<in> set (rest_calls (snd (controls_step st e s))) \<longrightarrow>
      e = ClickYesStop \<and> showConfirmStop s) \<and>
   (POST ''/system/stop'' b \<in> set (rest_calls (snd (controls_run tr controls_init))) \<longrightarrow>
      (\<exists>tr1 st1 tr2 st2 tr3.
         tr = tr1 @ (st1, ClickStopSystem) # tr2 @ (st2, ClickYesStop) # tr3)) \<and>
   (resp_status response = 200 \<longrightarrow>
      \<not> showConfirmStop (fst (stopSystem_resume (Inr response) s))) \<and>
   showConfirmStop (fst (stopSystem_resume (Inl error) s)) = showConfirmStop s"
proof (intro conjI impI)
  assume "POST ''/system/stop'' b \<in> set (rest_calls (snd (controls_step st e s)))"
  then show "e = ClickYesStop" and "showConfirmStop s"
    using stop_post_step by blast+
next
  assume "POST ''/system/stop'' b \<in> set (rest_calls (snd (controls_run tr controls_init)))"
  from stop_post_run [OF this]
  show "\<exists>tr1 st1 tr2 st2 tr3. tr = tr1 @ (st1, ClickStopSystem) # tr2 @ (st2, ClickYesStop) # tr3"
    by (simp add: controls_init_def)
next
  assume "resp_status response = 200"
  then show "\<not> showConfirmStop (fst (stopSystem_resume (Inr response) s))"
    by (rule stop_resume_success)
next
  show "showConfirmStop (fst (stopSystem_resume (Inl error) s)) = showConfirmStop s"
    by (rule stop_resume_failure)
qed

theorem stop_is_two_phase_witness:
  "POST ''/system/stop'' NoBody
     \<in> set (rest_calls (snd (controls_run [(status_running, ClickStopSystem),
                                           (status_running, ClickYesStop)] controls_init))) \<and>
   (\<exists>tr1 st1 tr2 st2 tr3.
      [(status_running, ClickStopSystem), (status_running, ClickYesStop)]
        = tr1 @ (st1, ClickStopSystem) # tr2 @ (st2, ClickYesStop) # tr3) \<and>
   rest_calls (snd (controls_run [(status_running, ClickYesStop)] controls_init)) = [] \<and>
   resp_status \<lparr>resp_status = 200, resp_data = ()\<rparr> = 200 \<and>
   \<not> showConfirmStop (fst (stopSystem_resume (Inr \<lparr>resp_status = 200, resp_data = ()\<rparr>)
        \<lparr>isLoadingC = True, checkInterval = 2, showConfirmStop = True\<rparr>)) \<and>
   showConfirmStop (fst (stopSystem_resume (Inl error_500)
        \<lparr>isLoadingC = True, checkInterval = 2, showConfirmStop = True\<rparr>))"
  using stop_is_two_phase
          [of NoBody status_running ClickYesStop
              "\<lparr>isLoadingC = True, checkInterval = 2, showConfirmStop = True\<rparr>"
              "[(status_running, ClickStopSystem), (status_running, ClickYesStop)]"
              "\<lparr>resp_status = 200, resp_data = ()\<rparr>" error_500]
  by (simp add: controls_init_def status_running_def isSystemRunning_def click_stopSystem_def
        stopSystem_def)

subsection \<open>The log stream\<close>

lemma appendLive_eq: "appendLive entry s = s\<lparr>logs := entry # logs s\<rparr>"
  by (simp add: appendLive_def)

lemma logs_appendLives: "logs (appendLives entries s) = rev entries @ logs s"
  unfolding appendLives_def
  by (induction entries arbitrary: s) (simp_all add: appendLive_eq)

lemma logs_fetchLogs_resume:
  "logs (fst (fetchLogs_resume (Inr response) s)) = resp_data response"
  by (simp add: fetchLogs_resume_def)

text \<open>
  C6. A page load replaces the log stream wholesale. Whatever the stream holds, and in
  particular after any K live-appended entries, whether they arrived before the fetch
  began or while it was in flight, the stream after the resolved fetch is exactly the
  fetched sequence: no live-appended entry is kept beside it.
\<close>

theorem page_load_replaces_stream:
  "logs (loadPage response (appendLives entries s)) = resp_data response \<and>
   logs (fst (fetchLogs_resume (Inr response) (appendLives entries (fst (fetchLogs s)))))
     = resp_data response"
  by (simp add: loadPage_def logs_fetchLogs_resume)

theorem page_load_replaces_stream_witness:
  "logs (appendLives [entry_login, entry_captcha] logs_init) = [entry_captcha, entry_login] \<and>
   logs (loadPage \<lparr>resp_status = 200, resp_data = [entry_login]\<rparr>
          (appendLives [entry_login, entry_captcha] logs_init)) = [entry_login]"
  using page_load_replaces_stream
          [of "\<lparr>resp_status = 200, resp_data = [entry_login]\<rparr>" "[entry_login, entry_captcha]"
              logs_init]
  by (simp add: logs_appendLives logs_init_def)

text \<open>
  C8. appendLive prepends. The listener, on one log push message, puts exactly that entry
  at the front of the stream and leaves the rest of the stream and of the state as it
  was; it issues no REST call (the only effect is the scroll to the top when auto-scroll
  is on). After a sequence of such messages the stream is the messages in reverse order
  of arrival, newest first, followed by the former stream in its order.
\<close>

theorem live_append_prepends:
  "handleMessage (Some (LogMsg entry)) s =
     (s\<lparr>logs := entry # logs s\<rparr>, if autoScroll s then [ScrollTop] else []) \<and>
   rest_calls (snd (handleMessage (Some (LogMsg entry)) s)) = [] \<and>
   logs (appendLive entry s) = entry # logs s \<and>
   logs (appendLives entries s) = rev entries @ logs s"
  by (simp add: logs_appendLives appendLive_eq)

theorem live_append_prepends_witness:
  "logs (appendLives [entry_login, entry_captcha] (logs_init\<lparr>logs := [entry_login]\<rparr>))
     = [entry_captcha, entry_login, entry_login]"
  using live_append_prepends [of entry_login "logs_init\<lparr>logs := [entry_login]\<rparr>"
          "[entry_login, entry_captcha]"]
  by simp

subsection \<open>The search filter\<close>






















subsection \<open>The message of a failed call\<close>

lemma detail_or_message_present:
  "error_detail e = Some d \<Longrightarrow> d \<noteq> [] \<Longrightarrow> detail_or_message e = d"
  by (simp add: detail_or_message_def)

lemma detail_or_message_absent:
  "error_detail e = None \<Longrightarrow> detail_or_message e = err_message e"
  by (simp add: detail_or_message_def)

lemma failure_alerts:
  "snd (startSystem_resume (Inl e) s) =
     [ConsoleError ''Failed to start system:'',
      Alert (''Failed to start system: '' @ detail_or_message e)]"
  "snd (stopSystem_resume (Inl e) s) =
     [ConsoleError ''Failed to stop system:'',
      Alert (''Failed to stop system: '' @ detail_or_message e)]"
  "snd (runTestCheck_resume (Inl e) s) =
     [ConsoleError ''Test check failed:'',
      Alert (cross_mark @ '' Test check failed: '' @ detail_or_message e)]"
  "snd (confirmBooking_resume (Inl e) b) =
     [ConsoleError ''Booking failed:'',
      Alert (cross_mark @ '' Booking failed: '' @ detail_or_message e)]"
  by (simp_all add: startSystem_resume_def stopSystem_resume_def runTestCheck_resume_def
        confirmBooking_resume_def)

text \<open>
  C9. The message of a failed mutating call. The four handlers above show the server's
  detail when the rejected call carries one. The test check of the dashboard does not:
  on a 500 answer whose body carries the detail "Automation busy", its alert shows
  axios' own message "Request failed with status code 500", where the test check of the
  controls page shows the detail on the same error.
\<close>

theorem dashboard_test_error_drops_detail:
  "error_detail error_500 = Some ''Automation busy'' \<and>
   snd (dashboard_runTestCheck_resume (Inl error_500) d) =
     [ConsoleError ''Test check failed:'',
      Alert ''Test check failed: Request failed with status code 500''] \<and>
   snd (runTestCheck_resume (Inl error_500) s) =
     [ConsoleError ''Test check failed:'',
      Alert (cross_mark @ '' Test check failed: Automation busy'')]"
  by (simp add: dashboard_runTestCheck_resume_def runTestCheck_resume_def error_500_def
        error_detail_def detail_or_message_def)

subsection \<open>Clearing the view\<close>

text \<open>
  C10. Clear View, once the user has confirmed the dialog, empties the log collection of
  the log page and does nothing else: it issues no REST call, and the system status, the
  slot collection, the selected level, the search term and every other part of the
  client state are what they were. When the user declines, nothing changes at all.
\<close>

theorem clear_view_frame:
  "client_clearLogs True c =
     (c\<lparr>logsView := (logsView c)\<lparr>logs := []\<rparr>\<rparr>, [ConfirmDialog clear_question]) \<and>
   rest_calls (snd (client_clearLogs True c)) = [] \<and>
   logs (logsView (fst (client_clearLogs True c))) = [] \<and>
   selectedLevel (logsView (fst (client_clearLogs True c))) = selectedLevel (logsView c) \<and>
   searchTerm (logsView (fst (client_clearLogs True c))) = searchTerm (logsView c) \<and>
   systemStatus (app (fst (client_clearLogs True c))) = systemStatus (app c) \<and>
   slots (slotsView (fst (client_clearLogs True c))) = slots (slotsView c) \<and>
   app (fst (client_clearLogs True c)) = app c \<and>
   controls (fst (client_clearLogs True c)) = controls c \<and>
   slotsView (fst (client_clearLogs True c)) = slotsView c \<and>
   dashboard (fst (client_clearLogs True c)) = dashboard c \<and>
   client_clearLogs False c = (c, [ConfirmDialog clear_question])"
  by (simp add: client_clearLogs_def in_logsView_def clearLogs_def)

theorem clear_view_frame_witness:
  "logs (logsView client_sample) = [entry_captcha, entry_login] \<and>
   logs (logsView (fst (client_clearLogs True client_sample))) = [] \<and>
   searchTerm (logsView (fst (client_clearLogs True client_sample))) = latin ''captcha'' \<and>
   systemStatus (app (fst (client_clearLogs True client_sample))) = status_running \<and>
   slots (slotsView (fst (client_clearLogs True client_sample))) = [slot_a]"
  using clear_view_frame [of client_sample]
  by (simp add: client_sample_def slots_confirming_def logs_init_def)

end
